theory Spec2Isabelle
  imports Complex_Main
begin

section \<open>Three-dimensional vectors\<close>

text \<open>
  Modelled from the spec: the class \<open>vector3d\<close> is declared in \<open>lander.h\<close>, which is
  not among the sources. The data model of the spec gives it three scalar components and
  the operations addition, subtraction, scalar multiplication and division, dot product,
  magnitude (\<open>abs\<close>), squared magnitude (\<open>abs2\<close>) and unit vector (\<open>norm\<close>).
  A C++ \<open>double\<close> is modelled as a real number throughout: rounding, infinities and NaN
  are outside this model.
\<close>

datatype vector3d = vector3d (vx: real) (vy: real) (vz: real)

instantiation vector3d :: real_vector
begin

definition zero_vector3d :: vector3d where
  "zero_vector3d = vector3d 0 0 0"

definition plus_vector3d :: "vector3d \<Rightarrow> vector3d \<Rightarrow> vector3d" where
  "plus_vector3d a b = vector3d (vx a + vx b) (vy a + vy b) (vz a + vz b)"

definition minus_vector3d :: "vector3d \<Rightarrow> vector3d \<Rightarrow> vector3d" where
  "minus_vector3d a b = vector3d (vx a - vx b) (vy a - vy b) (vz a - vz b)"

definition uminus_vector3d :: "vector3d \<Rightarrow> vector3d" where
  "uminus_vector3d a = vector3d (- vx a) (- vy a) (- vz a)"

definition scaleR_vector3d :: "real \<Rightarrow> vector3d \<Rightarrow> vector3d" where
  "scaleR_vector3d c a = vector3d (c * vx a) (c * vy a) (c * vz a)"

instance
proof
  fix a b c :: vector3d and r s :: real
  show "a + b + c = a + (b + c)"
    by (simp add: plus_vector3d_def)
  show "a + b = b + a"
    by (simp add: plus_vector3d_def)
  show "0 + a = a"
    by (simp add: plus_vector3d_def zero_vector3d_def)
  show "- a + a = 0"
    by (simp add: plus_vector3d_def zero_vector3d_def uminus_vector3d_def)
  show "a - b = a + - b"
    by (simp add: plus_vector3d_def minus_vector3d_def uminus_vector3d_def)
  show "r *\<^sub>R (a + b) = r *\<^sub>R a + r *\<^sub>R b"
    by (simp add: plus_vector3d_def scaleR_vector3d_def distrib_left)
  show "(r + s) *\<^sub>R a = r *\<^sub>R a + s *\<^sub>R a"
    by (simp add: plus_vector3d_def scaleR_vector3d_def distrib_right)
  show "r *\<^sub>R s *\<^sub>R a = (r * s) *\<^sub>R a"
    by (simp add: scaleR_vector3d_def mult.assoc)
  show "1 *\<^sub>R a = a"
    by (simp add: scaleR_vector3d_def)
qed

end

text \<open>\<open>v * c\<close>, the member operator with the scalar on the right.\<close>

definition vmul :: "vector3d \<Rightarrow> real \<Rightarrow> vector3d" where
  "vmul v c = vector3d (vx v * c) (vy v * c) (vz v * c)"

text \<open>
  \<open>v / c\<close>. Division by zero is \<open>0\<close> in HOL; for doubles it is an infinity or NaN.
\<close>

definition vdiv :: "vector3d \<Rightarrow> real \<Rightarrow> vector3d" where
  "vdiv v c = vector3d (vx v / c) (vy v / c) (vz v / c)"

text \<open>\<open>v * w\<close> on two vectors, the dot product.\<close>

definition dot :: "vector3d \<Rightarrow> vector3d \<Rightarrow> real" where
  "dot v w = vx v * vx w + vy v * vy w + vz v * vz w"

definition vabs2 :: "vector3d \<Rightarrow> real" where
  "vabs2 v = vx v * vx v + vy v * vy v + vz v * vz v"

definition vabs :: "vector3d \<Rightarrow> real" where
  "vabs v = sqrt (vabs2 v)"

text \<open>
  The unit vector \<open>v.norm()\<close>. The spec leaves the zero-length input open; here it
  yields the zero vector, as division by zero does in HOL.
\<close>

definition vnorm :: "vector3d \<Rightarrow> vector3d" where
  "vnorm v = vdiv v (vabs v)"


section \<open>The lander's state\<close>

datatype parachute_status_t = NOT_DEPLOYED | DEPLOYED | LOST

text \<open>
  The globals of the simulator that \<open>lander.cpp\<close> reads and writes, with the three
  globals the file declares itself (\<open>system_engaged\<close>, \<open>initial_altitude\<close>,
  \<open>first_iteration\<close>) and its function-local statics (\<open>vel_engaged\<close> of
  \<open>autopilot\<close>; \<open>previous_position\<close> and \<open>current_position\<close> of
  \<open>numerical_dynamics\<close>), all as fields of one record that is passed and returned.
\<close>

record lander =
  position :: vector3d
  velocity :: vector3d
  orientation :: vector3d
  delta_t :: real
  fuel :: real
  throttle :: real
  parachute_status :: parachute_status_t
  stabilized_attitude :: bool
  autopilot_enabled :: bool
  scenario :: int
  scenario_description :: "nat \<Rightarrow> string"
  system_engaged :: bool
  initial_altitude :: real
  first_iteration :: int
  vel_engaged :: real
  previous_position :: vector3d
  current_position :: vector3d

text \<open>
  Modelled from the spec: the constants and the external collaborators come from
  \<open>lander.h\<close> and the rest of the simulator, which are not among the sources. They
  are parameters of the model. Following the external interfaces of the spec, the
  density depends on a position, the thrust is a vector computed from the state, the
  parachute check is a boolean computed from the state, and the attitude stabilizer
  updates the orientation only (it returns the new orientation).
\<close>

record lander_h =
  MARS_RADIUS :: real
  MARS_MASS :: real
  GRAVITY :: real
  MAX_THRUST :: real
  UNLOADED_LANDER_MASS :: real
  FUEL_DENSITY :: real
  FUEL_CAPACITY :: real
  DRAG_COEF_LANDER :: real
  DRAG_COEF_CHUTE :: real
  LANDER_SIZE :: real
  EXOSPHERE :: real
  atmospheric_density :: "vector3d \<Rightarrow> real"
  thrust_wrt_world :: "lander \<Rightarrow> vector3d"
  safe_to_deploy_parachute :: "lander \<Rightarrow> bool"
  attitude_stabilization :: "lander \<Rightarrow> vector3d"


section \<open>The autopilot\<close>

text \<open>The local variables of \<open>autopilot\<close>, in the order the function computes them.\<close>

definition Kp :: real where
  "Kp = 0.05"

definition autopilot_h :: "lander_h \<Rightarrow> lander \<Rightarrow> real" where
  "autopilot_h E s = vabs (position s) - MARS_RADIUS E"

definition autopilot_alt_engage :: "lander \<Rightarrow> real" where
  "autopilot_alt_engage s = initial_altitude s * 0.5"

definition autopilot_weight_throttle :: "lander_h \<Rightarrow> real \<Rightarrow> real" where
  "autopilot_weight_throttle E g_force = g_force / MAX_THRUST E"

definition autopilot_vel_radial :: "lander \<Rightarrow> real" where
  "autopilot_vel_radial s = dot (velocity s) (vnorm (position s))"

definition autopilot_chute_engage :: "lander \<Rightarrow> real" where
  "autopilot_chute_engage s =
     autopilot_alt_engage s - (initial_altitude s - 10000) / 1.943"

text \<open>
  The locals of the engaged branch. \<open>Kh\<close> reads the static \<open>vel_engaged\<close> and
  divides by \<open>alt_engage\<close>; where \<open>alt_engage\<close> is zero the quotient is \<open>0\<close> in
  HOL and an infinity or NaN for doubles.
\<close>

definition autopilot_Kh :: "real \<Rightarrow> real \<Rightarrow> real" where
  "autopilot_Kh vel_engaged' alt_engage = - (0.7 * (1 / Kp) + 0.5 + vel_engaged') / alt_engage"

definition autopilot_e :: "real \<Rightarrow> real \<Rightarrow> real \<Rightarrow> real" where
  "autopilot_e Kh h vel_radial = - (0.5 + Kh * h + vel_radial)"

text \<open>
  The two statements that set the throttle once engaged: an \<open>if\<close> without
  \<open>else\<close>, followed by an \<open>if\<close> with an \<open>else\<close>.
\<close>

definition autopilot_throttle :: "real \<Rightarrow> real \<Rightarrow> lander \<Rightarrow> lander" where
  "autopilot_throttle weight_throttle power_output s =
     (let s1 = (if power_output \<le> - weight_throttle then s\<lparr>throttle := 0\<rparr> else s)
      in if - weight_throttle < power_output \<and> power_output < 1 - weight_throttle
         then s1\<lparr>throttle := weight_throttle + power_output\<rparr>
         else s1\<lparr>throttle := 1\<rparr>)"

text \<open>The parameter \<open>mass\<close> is not used by the function.\<close>

definition autopilot :: "lander_h \<Rightarrow> real \<Rightarrow> real \<Rightarrow> lander \<Rightarrow> lander" where
  "autopilot E g_force mass s =
     (let h = autopilot_h E s;
          alt_engage = autopilot_alt_engage s;
          weight_throttle = autopilot_weight_throttle E g_force;
          vel_radial = autopilot_vel_radial s;
          chute_engage = autopilot_chute_engage s;
          s1 = (if h < chute_engage \<and> parachute_status s = NOT_DEPLOYED
                then (if safe_to_deploy_parachute E s
                      then s\<lparr>parachute_status := DEPLOYED\<rparr> else s)
                else s)
      in if \<not> system_engaged s1
         then (if h < alt_engage
               then s1\<lparr>system_engaged := True, vel_engaged := vel_radial\<rparr>
               else s1)
         else (let Kh = autopilot_Kh (vel_engaged s1) alt_engage;
                   e = autopilot_e Kh h vel_radial;
                   power_output = Kp * e
               in autopilot_throttle weight_throttle power_output s1))"

text \<open>
  The value of \<open>power_output\<close> that an invocation entered in state \<open>s\<close> computes in
  its engaged branch.
\<close>

definition autopilot_power_output :: "lander_h \<Rightarrow> lander \<Rightarrow> real" where
  "autopilot_power_output E s =
     Kp * autopilot_e (autopilot_Kh (vel_engaged s) (autopilot_alt_engage s))
            (autopilot_h E s) (autopilot_vel_radial s)"


section \<open>The integrator\<close>

text \<open>The forces and the acceleration that \<open>numerical_dynamics\<close> computes first.\<close>

definition nd_mass :: "lander_h \<Rightarrow> lander \<Rightarrow> real" where
  "nd_mass E s = UNLOADED_LANDER_MASS E + fuel s * FUEL_DENSITY E * FUEL_CAPACITY E"

definition nd_g_force :: "lander_h \<Rightarrow> lander \<Rightarrow> vector3d" where
  "nd_g_force E s =
     (- (GRAVITY E * MARS_MASS E * nd_mass E s / vabs2 (position s))) *\<^sub>R vnorm (position s)"

definition nd_d_force :: "lander_h \<Rightarrow> lander \<Rightarrow> vector3d" where
  "nd_d_force E s =
     (let density = atmospheric_density E (position s);
          d_force = (- 0.5 * density * DRAG_COEF_LANDER E * 3.14159265 * vabs2 (velocity s))
                      *\<^sub>R vnorm (velocity s)
      in if parachute_status s = DEPLOYED
         then d_force + (- 0.5 * density * DRAG_COEF_CHUTE E * 20 * vabs2 (velocity s))
                          *\<^sub>R vnorm (velocity s)
         else d_force)"

definition nd_a :: "lander_h \<Rightarrow> lander \<Rightarrow> vector3d" where
  "nd_a E s = vdiv (nd_g_force E s + nd_d_force E s + thrust_wrt_world E s) (nd_mass E s)"

text \<open>
  The Verlet block, for the acceleration \<open>a\<close>: the bootstrap branch when
  \<open>first_iteration\<close> is \<open>1\<close>, the two-step recurrence otherwise. Each assignment of
  the source is one update, in the source's order.
\<close>

definition verlet :: "vector3d \<Rightarrow> lander \<Rightarrow> lander" where
  "verlet a s =
     (if first_iteration s = 1
      then (let s1 = s\<lparr>previous_position := position s\<rparr>;
                s2 = s1\<lparr>position := previous_position s1 + vmul (velocity s1) (delta_t s1)
                                      + (0.5 * delta_t s1 * delta_t s1) *\<^sub>R a\<rparr>;
                s3 = s2\<lparr>velocity :=
                         vdiv (vmul (vmul (2 *\<^sub>R position s2 - previous_position s2
                                           + vmul (vmul a (delta_t s2)) (delta_t s2)
                                           - previous_position s2) 0.5) 1) (delta_t s2)\<rparr>
            in s3\<lparr>first_iteration := 0\<rparr>)
      else (let s1 = s\<lparr>current_position := position s\<rparr>;
                s2 = s1\<lparr>position := 2 *\<^sub>R current_position s1 - previous_position s1
                                      + vmul (vmul a (delta_t s1)) (delta_t s1)\<rparr>;
                s3 = s2\<lparr>previous_position := current_position s2\<rparr>
            in s3\<lparr>velocity :=
                     vdiv (vmul (vmul (2 *\<^sub>R position s3 - previous_position s3
                                       + vmul (vmul a (delta_t s3)) (delta_t s3)
                                       - previous_position s3) 0.5) 1) (delta_t s3)\<rparr>))"

definition numerical_dynamics :: "lander_h \<Rightarrow> lander \<Rightarrow> lander" where
  "numerical_dynamics E s =
     (let mass = nd_mass E s;
          g_force = nd_g_force E s;
          a = nd_a E s;
          s1 = verlet a s;
          s2 = (if autopilot_enabled s1 then autopilot E (vabs g_force) mass s1 else s1)
      in if stabilized_attitude s2
         then s2\<lparr>orientation := attitude_stabilization E s2\<rparr>
         else s2)"


section \<open>The scenario initializer\<close>

text \<open>
  The \<open>switch\<close> has the cases 0 to 5 and no default: any other scenario number leaves
  the state as the two resets before the \<open>switch\<close> made it.
\<close>

definition initialize_simulation :: "lander_h \<Rightarrow> lander \<Rightarrow> lander" where
  "initialize_simulation E s =
     (let s0 = s\<lparr>scenario_description := (scenario_description s)
                  (0 := ''circular orbit'',
                   1 := ''descent from 10km'',
                   2 := ''elliptical orbit, thrust changes orbital plane'',
                   3 := ''polar launch at escape velocity (but drag prevents escape)'',
                   4 := ''elliptical orbit that clips the atmosphere and decays'',
                   5 := ''descent from 200km'')\<rparr>;
          s1 = s0\<lparr>first_iteration := 1\<rparr>;
          s2 = s1\<lparr>system_engaged := False\<rparr>
      in if scenario s2 = 0 then
           s2\<lparr>position := vector3d (1.2 * MARS_RADIUS E) 0.0 0.0,
              velocity := vector3d 0.0 (- 3247.087385863725) 0.0,
              orientation := vector3d 0.0 90.0 0.0,
              delta_t := 0.1,
              parachute_status := NOT_DEPLOYED,
              stabilized_attitude := False,
              autopilot_enabled := False\<rparr>
         else if scenario s2 = 1 then
           (let s3 = s2\<lparr>position := vector3d 0.0 (- (MARS_RADIUS E + 10000.0)) 0.0,
                        velocity := vector3d 0.0 0.0 0.0,
                        orientation := vector3d 0.0 0.0 90.0,
                        delta_t := 0.1,
                        parachute_status := NOT_DEPLOYED,
                        stabilized_attitude := True,
                        autopilot_enabled := True\<rparr>
            in s3\<lparr>initial_altitude := vabs (position s3) - MARS_RADIUS E\<rparr>)
         else if scenario s2 = 2 then
           s2\<lparr>position := vector3d 0.0 0.0 (1.2 * MARS_RADIUS E),
              velocity := vector3d 3500.0 0.0 0.0,
              orientation := vector3d 0.0 0.0 90.0,
              delta_t := 0.1,
              parachute_status := NOT_DEPLOYED,
              stabilized_attitude := False,
              autopilot_enabled := False\<rparr>
         else if scenario s2 = 3 then
           s2\<lparr>position := vector3d 0.0 0.0 (MARS_RADIUS E + LANDER_SIZE E / 2.0),
              velocity := vector3d 0.0 0.0 5027.0,
              orientation := vector3d 0.0 0.0 0.0,
              delta_t := 0.1,
              parachute_status := NOT_DEPLOYED,
              stabilized_attitude := False,
              autopilot_enabled := False\<rparr>
         else if scenario s2 = 4 then
           s2\<lparr>position := vector3d 0.0 0.0 (MARS_RADIUS E + 100000.0),
              velocity := vector3d 4000.0 0.0 0.0,
              orientation := vector3d 0.0 90.0 0.0,
              delta_t := 0.1,
              parachute_status := NOT_DEPLOYED,
              stabilized_attitude := False,
              autopilot_enabled := False\<rparr>
         else if scenario s2 = 5 then
           (let s3 = s2\<lparr>position := vector3d 0.0 (- (MARS_RADIUS E + EXOSPHERE E)) 0.0,
                        velocity := vector3d 0.0 0.0 0.0,
                        orientation := vector3d 0.0 0.0 90.0,
                        delta_t := 0.1,
                        parachute_status := NOT_DEPLOYED,
                        stabilized_attitude := True,
                        autopilot_enabled := True\<rparr>
            in s3\<lparr>initial_altitude := vabs (position s3) - MARS_RADIUS E\<rparr>)
         else s2)"


section \<open>Derived notions used in the statements\<close>

text \<open>
  The state in which \<open>numerical_dynamics\<close> invokes the autopilot: the state it was
  entered in, advanced by the Verlet block.
\<close>

definition autopilot_entry :: "lander_h \<Rightarrow> lander \<Rightarrow> lander" where
  "autopilot_entry E s = verlet (nd_a E s) s"

text \<open>
  The expression that both branches of the Verlet block assign to \<open>velocity\<close>, as a
  function of the position just computed, the lagged position, the acceleration and the
  time step.
\<close>

definition central_difference :: "vector3d \<Rightarrow> vector3d \<Rightarrow> vector3d \<Rightarrow> real \<Rightarrow> vector3d" where
  "central_difference p prev a dt =
     vdiv (vmul (vmul (2 *\<^sub>R p - prev + vmul (vmul a dt) dt - prev) 0.5) 1) dt"


section \<open>Concrete parameters and states\<close>

text \<open>
  A set of parameters of the magnitude of the simulated planet and lander, with no
  atmosphere, a thrust along the position's unit vector, and a speed limit for the
  parachute.
\<close>

definition mars :: lander_h where
  "mars = \<lparr>MARS_RADIUS = 3386000, MARS_MASS = 642 * 10 ^ 21, GRAVITY = 6673 / 10 ^ 14,
           MAX_THRUST = 1200, UNLOADED_LANDER_MASS = 100, FUEL_DENSITY = 1,
           FUEL_CAPACITY = 100, DRAG_COEF_LANDER = 1, DRAG_COEF_CHUTE = 2,
           LANDER_SIZE = 1, EXOSPHERE = 200000,
           atmospheric_density = (\<lambda>p. 0),
           thrust_wrt_world = (\<lambda>s. (throttle s * 1200) *\<^sub>R vnorm (position s)),
           safe_to_deploy_parachute = (\<lambda>s. vabs2 (velocity s) < 250000),
           attitude_stabilization = (\<lambda>s. vector3d 0 0 90)\<rparr>"

text \<open>
  Parameters under which the net acceleration is the same at every step: no gravity, no
  atmosphere, a constant thrust vector; the parachute check always fails.
\<close>

definition uniform_field :: lander_h where
  "uniform_field = mars\<lparr>GRAVITY := 0, thrust_wrt_world := (\<lambda>s. vector3d 0 300 0),
                         safe_to_deploy_parachute := (\<lambda>s. False)\<rparr>"

text \<open>
  An engaged lander hovering at 4000 m altitude in a descent that started at 10000 m
  and engaged at a radial velocity of -100 m/s.
\<close>

definition hovering :: lander where
  "hovering = \<lparr>position = vector3d 0 (- 3390000) 0, velocity = vector3d 0 0 0,
               orientation = vector3d 0 0 90, delta_t = 0.1, fuel = 0.6,
               throttle = 0.4, parachute_status = NOT_DEPLOYED,
               stabilized_attitude = True, autopilot_enabled = True, scenario = 1,
               scenario_description = (\<lambda>i. []), system_engaged = True,
               initial_altitude = 10000, first_iteration = 0, vel_engaged = - 100,
               previous_position = vector3d 0 (- 3390000) 0,
               current_position = vector3d 0 (- 3390000) 0\<rparr>"

text \<open>
  A lander at rest, 5000.02 m above the surface, before the first call of the
  integrator, with the autopilot enabled and not yet engaged.
\<close>

definition at_rest :: lander where
  "at_rest = \<lparr>position = vector3d 0 (- 3391000.02) 0, velocity = vector3d 0 0 0,
              orientation = vector3d 0 0 90, delta_t = 0.1, fuel = 0.5,
              throttle = 0, parachute_status = NOT_DEPLOYED,
              stabilized_attitude = True, autopilot_enabled = True, scenario = 1,
              scenario_description = (\<lambda>i. []), system_engaged = False,
              initial_altitude = 10000, first_iteration = 1, vel_engaged = 0,
              previous_position = vector3d 0 0 0,
              current_position = vector3d 0 0 0\<rparr>"


section \<open>Vectors: components and axis-aligned magnitudes\<close>

lemma vector3d_components [simp]:
  "vx (a + b) = vx a + vx b" "vy (a + b) = vy a + vy b" "vz (a + b) = vz a + vz b"
  "vx (a - b) = vx a - vx b" "vy (a - b) = vy a - vy b" "vz (a - b) = vz a - vz b"
  "vx (c *\<^sub>R a) = c * vx a" "vy (c *\<^sub>R a) = c * vy a" "vz (c *\<^sub>R a) = c * vz a"
  "vx (vmul a c) = vx a * c" "vy (vmul a c) = vy a * c" "vz (vmul a c) = vz a * c"
  "vx (0::vector3d) = 0" "vy (0::vector3d) = 0" "vz (0::vector3d) = 0"
  by (simp_all add: plus_vector3d_def minus_vector3d_def scaleR_vector3d_def vmul_def
      zero_vector3d_def)

lemma vabs_on_x_axis: "vabs (vector3d b 0 0) = \<bar>b\<bar>"
  by (simp add: vabs_def vabs2_def)

lemma vabs_on_y_axis: "vabs (vector3d 0 b 0) = \<bar>b\<bar>"
  by (simp add: vabs_def vabs2_def)

lemma vnorm_on_y_axis: "vnorm (vector3d 0 b 0) = vector3d 0 (b / \<bar>b\<bar>) 0"
  by (simp add: vnorm_def vdiv_def vabs_on_y_axis)


section \<open>What one invocation of the autopilot writes\<close>

lemma autopilot_throttle_eq:
  "autopilot_throttle wt po s =
     s\<lparr>throttle := (if - wt < po \<and> po < 1 - wt then wt + po else 1)\<rparr>"
  by (simp add: autopilot_throttle_def Let_def)

lemma autopilot_engaged_eq:
  "system_engaged s \<Longrightarrow>
   autopilot E g m s =
     s\<lparr>parachute_status :=
         (if autopilot_h E s < autopilot_chute_engage s \<and> parachute_status s = NOT_DEPLOYED
               \<and> safe_to_deploy_parachute E s
          then DEPLOYED else parachute_status s),
       throttle :=
         (if - autopilot_weight_throttle E g < autopilot_power_output E s
               \<and> autopilot_power_output E s < 1 - autopilot_weight_throttle E g
          then autopilot_weight_throttle E g + autopilot_power_output E s else 1)\<rparr>"
  by (simp add: autopilot_def Let_def autopilot_throttle_eq autopilot_power_output_def)

lemma autopilot_disengaged_eq:
  "\<not> system_engaged s \<Longrightarrow>
   autopilot E g m s =
     (let s1 = s\<lparr>parachute_status :=
                  (if autopilot_h E s < autopilot_chute_engage s
                        \<and> parachute_status s = NOT_DEPLOYED \<and> safe_to_deploy_parachute E s
                   then DEPLOYED else parachute_status s)\<rparr>
      in if autopilot_h E s < autopilot_alt_engage s
         then s1\<lparr>system_engaged := True, vel_engaged := autopilot_vel_radial s\<rparr>
         else s1)"
  by (simp add: autopilot_def Let_def)

lemma autopilot_frame:
  "autopilot_enabled (autopilot E g m s) = autopilot_enabled s"
  "stabilized_attitude (autopilot E g m s) = stabilized_attitude s"
  "initial_altitude (autopilot E g m s) = initial_altitude s"
  "delta_t (autopilot E g m s) = delta_t s"
  "fuel (autopilot E g m s) = fuel s"
  "position (autopilot E g m s) = position s"
  "velocity (autopilot E g m s) = velocity s"
  "previous_position (autopilot E g m s) = previous_position s"
  "first_iteration (autopilot E g m s) = first_iteration s"
  by (cases "system_engaged s";
      simp add: autopilot_engaged_eq autopilot_disengaged_eq Let_def)+

lemma hovering_locals:
  "autopilot_h mars hovering = 4000"
  "autopilot_alt_engage hovering = 5000"
  "autopilot_chute_engage hovering = 5000"
  "autopilot_weight_throttle mars 600 = 1 / 2"
  by (simp_all add: autopilot_h_def autopilot_alt_engage_def autopilot_chute_engage_def
      autopilot_weight_throttle_def hovering_def mars_def vabs_on_y_axis)


section \<open>Throttle: range, frame and sign\<close>

text \<open>
  C4. Whenever the autopilot writes the throttle, which it does exactly in an
  invocation that begins engaged, the value written lies in the closed interval from 0
  to 1, whatever the altitude, the velocity, the force, the mass and the internal state
  are; and an invocation entered with a throttle in that interval leaves one in it.
\<close>

theorem autopilot_throttle_in_unit_interval:
  "system_engaged s \<or> (0 \<le> throttle s \<and> throttle s \<le> 1) \<Longrightarrow>
   0 \<le> throttle (autopilot E g_force mass s) \<and> throttle (autopilot E g_force mass s) \<le> 1"
  by (cases "system_engaged s")
    (auto simp add: autopilot_engaged_eq autopilot_disengaged_eq Let_def)

theorem autopilot_throttle_in_unit_interval_witness:
  "(system_engaged (hovering\<lparr>throttle := 5\<rparr>)
    \<and> 0 \<le> throttle (autopilot mars 600 160 (hovering\<lparr>throttle := 5\<rparr>))
    \<and> throttle (autopilot mars 600 160 (hovering\<lparr>throttle := 5\<rparr>)) \<le> 1)
   \<and> (\<not> system_engaged (hovering\<lparr>system_engaged := False\<rparr>)
    \<and> 0 \<le> throttle (hovering\<lparr>system_engaged := False\<rparr>)
    \<and> throttle (hovering\<lparr>system_engaged := False\<rparr>) \<le> 1
    \<and> 0 \<le> throttle (autopilot mars 600 160 (hovering\<lparr>system_engaged := False\<rparr>))
    \<and> throttle (autopilot mars 600 160 (hovering\<lparr>system_engaged := False\<rparr>)) \<le> 1)"
proof -
  have engaged: "system_engaged (hovering\<lparr>throttle := 5\<rparr>)"
    by (simp add: hovering_def)
  have in_range: "\<not> system_engaged (hovering\<lparr>system_engaged := False\<rparr>)
      \<and> 0 \<le> throttle (hovering\<lparr>system_engaged := False\<rparr>)
      \<and> throttle (hovering\<lparr>system_engaged := False\<rparr>) \<le> 1"
    by (simp add: hovering_def)
  show ?thesis
    using engaged in_range
      autopilot_throttle_in_unit_interval [of "hovering\<lparr>throttle := 5\<rparr>" mars 600 160]
      autopilot_throttle_in_unit_interval
        [of "hovering\<lparr>system_engaged := False\<rparr>" mars 600 160]
    by blast
qed

text \<open>
  C8. An invocation that begins disengaged leaves the throttle as it was, also when
  that invocation is the one that engages.
\<close>

theorem autopilot_disengaged_keeps_throttle:
  "\<not> system_engaged s \<Longrightarrow> throttle (autopilot E g_force mass s) = throttle s"
  by (simp add: autopilot_disengaged_eq Let_def)

theorem autopilot_disengaged_keeps_throttle_witness:
  "\<not> system_engaged (hovering\<lparr>system_engaged := False\<rparr>)
   \<and> autopilot_h mars (hovering\<lparr>system_engaged := False\<rparr>)
       < autopilot_alt_engage (hovering\<lparr>system_engaged := False\<rparr>)
   \<and> system_engaged (autopilot mars 600 160 (hovering\<lparr>system_engaged := False\<rparr>))
   \<and> throttle (autopilot mars 600 160 (hovering\<lparr>system_engaged := False\<rparr>)) = 0.4"
proof -
  let ?s = "hovering\<lparr>system_engaged := False\<rparr>"
  have off: "\<not> system_engaged ?s"
    by simp
  have low: "autopilot_h mars ?s < autopilot_alt_engage ?s"
    using hovering_locals(1,2) by (simp add: autopilot_h_def autopilot_alt_engage_def)
  have fires: "system_engaged (autopilot mars 600 160 ?s)"
    using low by (simp add: autopilot_disengaged_eq Let_def)
  have "throttle ?s = 0.4"
    by (simp add: hovering_def)
  with off low fires autopilot_disengaged_keeps_throttle [of ?s mars 600 160]
  show ?thesis by simp
qed

text \<open>
  C10. An invocation that begins engaged writes a throttle that is strictly positive:
  a value strictly between 0 and 1, or exactly 1. It never writes 0.
\<close>

theorem autopilot_engaged_throttle_positive:
  "system_engaged s \<Longrightarrow>
   0 < throttle (autopilot E g_force mass s) \<and>
   (throttle (autopilot E g_force mass s) < 1 \<or> throttle (autopilot E g_force mass s) = 1)"
  by (auto simp add: autopilot_engaged_eq)

theorem autopilot_engaged_throttle_positive_witness:
  "system_engaged hovering \<and>
   0 < throttle (autopilot mars 600 160 hovering) \<and>
   (throttle (autopilot mars 600 160 hovering) < 1
    \<or> throttle (autopilot mars 600 160 hovering) = 1)"
proof -
  have engaged: "system_engaged hovering"
    by (simp add: hovering_def)
  show ?thesis
    using engaged autopilot_engaged_throttle_positive [OF engaged, of mars 600 160]
    by simp
qed


section \<open>The saturation branches as the code runs them\<close>

lemma hovering_power_output:
  "autopilot_power_output mars (hovering\<lparr>velocity := vector3d 0 v 0\<rparr>) = (v - 68.9) / 20"
  by (simp add: autopilot_power_output_def autopilot_e_def autopilot_Kh_def Kp_def
      autopilot_h_def autopilot_alt_engage_def autopilot_vel_radial_def hovering_def mars_def
      vabs_on_y_axis vnorm_on_y_axis dot_def)

text \<open>
  C1. The mapping from \<open>power_output\<close> to the throttle is claimed to have three
  branches: 0 at or below minus \<open>weight_throttle\<close>, \<open>weight_throttle\<close> plus
  \<open>power_output\<close> in the linear region, 1 above it. The code follows the second and
  the third branch. In the first it assigns 0 and then, the next \<open>if\<close> being false,
  runs that statement's \<open>else\<close>: an engaged invocation whose \<open>power_output\<close> is at
  most minus \<open>weight_throttle\<close> writes the throttle 1.
\<close>

theorem engaged_cutoff_writes_full_thrust:
  "system_engaged s \<Longrightarrow>
   autopilot_power_output E s \<le> - autopilot_weight_throttle E g_force \<Longrightarrow>
   throttle (autopilot E g_force mass s) = 1"
  by (simp add: autopilot_engaged_eq)

theorem engaged_cutoff_writes_full_thrust_witness:
  "system_engaged (hovering\<lparr>velocity := vector3d 0 0 0\<rparr>)
   \<and> autopilot_power_output mars (hovering\<lparr>velocity := vector3d 0 0 0\<rparr>) = - 3.445
   \<and> autopilot_weight_throttle mars 600 = 0.5
   \<and> throttle (autopilot mars 600 160 (hovering\<lparr>velocity := vector3d 0 0 0\<rparr>)) = 1"
proof -
  let ?s = "hovering\<lparr>velocity := vector3d 0 0 0\<rparr>"
  have engaged: "system_engaged ?s"
    by (simp add: hovering_def)
  have po: "autopilot_power_output mars ?s = - 3.445"
    by (simp add: hovering_power_output)
  have wt: "autopilot_weight_throttle mars 600 = 0.5"
    by (simp add: hovering_locals)
  have below: "autopilot_power_output mars ?s \<le> - autopilot_weight_throttle mars 600"
    by (simp add: po wt)
  show ?thesis
    using engaged po wt engaged_cutoff_writes_full_thrust [OF engaged below, of 160]
    by simp
qed

text \<open>
  C3. The throttle law is claimed continuous in \<open>power_output\<close> at both saturation
  boundaries. As the code computes it, the law is continuous at the upper boundary, one
  minus \<open>weight_throttle\<close>, where the linear value \<open>1 - eps\<close> meets 1. At the lower
  boundary, minus \<open>weight_throttle\<close>, it is not: just inside the linear region the
  throttle is \<open>eps\<close>, at the boundary it is 1.
\<close>

theorem throttle_jump_at_lower_boundary:
  "throttle (autopilot_throttle wt (- wt) s) = 1
   \<and> throttle (autopilot_throttle wt (1 - wt) s) = 1
   \<and> (0 < eps \<and> eps < 1 \<longrightarrow>
        throttle (autopilot_throttle wt (- wt + eps) s) = eps
        \<and> throttle (autopilot_throttle wt (1 - wt - eps) s) = 1 - eps)"
  by (simp add: autopilot_throttle_eq)

theorem throttle_jump_at_lower_boundary_witness:
  "autopilot_power_output mars (hovering\<lparr>velocity := vector3d 0 58.9 0\<rparr>)
     = - autopilot_weight_throttle mars 600
   \<and> throttle (autopilot mars 600 160 (hovering\<lparr>velocity := vector3d 0 58.9 0\<rparr>)) = 1
   \<and> autopilot_power_output mars (hovering\<lparr>velocity := vector3d 0 58.92 0\<rparr>)
     = - autopilot_weight_throttle mars 600 + 1 / 1000
   \<and> throttle (autopilot mars 600 160 (hovering\<lparr>velocity := vector3d 0 58.92 0\<rparr>)) = 1 / 1000
   \<and> throttle (autopilot_throttle (1 / 2) (- (1 / 2)) hovering) = 1
   \<and> throttle (autopilot_throttle (1 / 2) (- (1 / 2) + 1 / 1000) hovering) = 1 / 1000"
proof -
  let ?b = "hovering\<lparr>velocity := vector3d 0 58.9 0\<rparr>"
  let ?i = "hovering\<lparr>velocity := vector3d 0 58.92 0\<rparr>"
  have wt: "autopilot_weight_throttle mars 600 = 1 / 2"
    by (rule hovering_locals)
  have pb: "autopilot_power_output mars ?b = - (1 / 2)"
    by (simp add: hovering_power_output)
  have pi: "autopilot_power_output mars ?i = - (1 / 2) + 1 / 1000"
    by (simp add: hovering_power_output)
  have eb: "system_engaged ?b" and ei: "system_engaged ?i"
    by (simp_all add: hovering_def)
  have tb: "throttle (autopilot mars 600 160 ?b) = 1"
    using autopilot_engaged_eq [OF eb, of mars 600 160] wt pb by simp
  have ti: "throttle (autopilot mars 600 160 ?i) = 1 / 1000"
    using autopilot_engaged_eq [OF ei, of mars 600 160] wt pi by simp
  have eps: "(0::real) < 1 / 1000 \<and> (1::real) / 1000 < 1"
    by simp
  show ?thesis
    using wt pb pi tb ti eps
      throttle_jump_at_lower_boundary [of "1 / 2" hovering "1 / 1000"]
    by simp
qed


section \<open>What the initializer resets\<close>

text \<open>
  C9, as amended. Every call of the initializer sets the bootstrap flag to 1 and clears
  the engagement flag, whatever the scenario. It recaptures \<open>initial_altitude\<close> from
  the new starting position in the scenarios 1 and 5 and leaves it as it was in every
  other scenario; among the scenarios 0 to 5, the scenarios 1 and 5 are exactly those
  for which it enables the autopilot.
\<close>

theorem initialize_simulation_resets:
  "first_iteration (initialize_simulation E s) = 1
   \<and> system_engaged (initialize_simulation E s) = False
   \<and> initial_altitude (initialize_simulation E s) =
       (if scenario s = 1 \<or> scenario s = 5
        then vabs (position (initialize_simulation E s)) - MARS_RADIUS E
        else initial_altitude s)
   \<and> autopilot_enabled (initialize_simulation E s) =
       (if 0 \<le> scenario s \<and> scenario s \<le> 5 then scenario s = 1 \<or> scenario s = 5
        else autopilot_enabled s)"
  by (simp add: initialize_simulation_def Let_def)

text \<open>
  Scenario 0, initialized after a descent from 10000 m: the initial altitude is still
  10000, while the new starting position is 677200 m above the surface.
\<close>

theorem stale_initial_altitude_counterexample:
  "initial_altitude (initialize_simulation mars (hovering\<lparr>scenario := 0\<rparr>)) = 10000
   \<and> vabs (position (initialize_simulation mars (hovering\<lparr>scenario := 0\<rparr>)))
       - MARS_RADIUS mars = 677200
   \<and> initial_altitude (initialize_simulation mars (hovering\<lparr>scenario := 0\<rparr>))
       \<noteq> vabs (position (initialize_simulation mars (hovering\<lparr>scenario := 0\<rparr>)))
           - MARS_RADIUS mars"
  by (simp add: initialize_simulation_def Let_def hovering_def mars_def vabs_on_x_axis)


section \<open>What one call of the integrator writes\<close>

lemma verlet_frame:
  "system_engaged (verlet a s) = system_engaged s"
  "vel_engaged (verlet a s) = vel_engaged s"
  "parachute_status (verlet a s) = parachute_status s"
  "throttle (verlet a s) = throttle s"
  "autopilot_enabled (verlet a s) = autopilot_enabled s"
  "stabilized_attitude (verlet a s) = stabilized_attitude s"
  "initial_altitude (verlet a s) = initial_altitude s"
  "delta_t (verlet a s) = delta_t s"
  "fuel (verlet a s) = fuel s"
  by (simp_all add: verlet_def Let_def)

lemma verlet_bootstrap:
  assumes "first_iteration s = 1"
  shows "position (verlet a s) =
           position s + vmul (velocity s) (delta_t s) + (0.5 * delta_t s * delta_t s) *\<^sub>R a"
    and "previous_position (verlet a s) = position s"
    and "velocity (verlet a s) =
           central_difference (position (verlet a s)) (previous_position (verlet a s)) a
             (delta_t s)"
  using assms by (simp_all add: verlet_def Let_def central_difference_def)

lemma verlet_steady:
  assumes "first_iteration s \<noteq> 1"
  shows "position (verlet a s) =
           2 *\<^sub>R position s - previous_position s + vmul (vmul a (delta_t s)) (delta_t s)"
    and "previous_position (verlet a s) = position s"
    and "velocity (verlet a s) =
           central_difference (position (verlet a s)) (previous_position (verlet a s)) a
             (delta_t s)"
  using assms by (simp_all add: verlet_def Let_def central_difference_def)

lemma first_iteration_verlet: "first_iteration (verlet a s) \<noteq> 1"
  by (simp add: verlet_def Let_def)

lemma numerical_dynamics_eq:
  "numerical_dynamics E s =
     (let s2 = (if autopilot_enabled s
                then autopilot E (vabs (nd_g_force E s)) (nd_mass E s) (autopilot_entry E s)
                else autopilot_entry E s)
      in if stabilized_attitude s then s2\<lparr>orientation := attitude_stabilization E s2\<rparr>
         else s2)"
  by (simp add: numerical_dynamics_def autopilot_entry_def Let_def verlet_frame
      autopilot_frame)

lemma integrator_numerical_dynamics:
  "position (numerical_dynamics E s) = position (verlet (nd_a E s) s)"
  "velocity (numerical_dynamics E s) = velocity (verlet (nd_a E s) s)"
  "previous_position (numerical_dynamics E s) = previous_position (verlet (nd_a E s) s)"
  "first_iteration (numerical_dynamics E s) = first_iteration (verlet (nd_a E s) s)"
  by (simp_all add: numerical_dynamics_eq Let_def autopilot_frame autopilot_entry_def)

lemma numerical_dynamics_frame:
  "autopilot_enabled (numerical_dynamics E s) = autopilot_enabled s"
  "stabilized_attitude (numerical_dynamics E s) = stabilized_attitude s"
  "initial_altitude (numerical_dynamics E s) = initial_altitude s"
  "delta_t (numerical_dynamics E s) = delta_t s"
  "fuel (numerical_dynamics E s) = fuel s"
  by (simp_all add: numerical_dynamics_eq Let_def autopilot_frame autopilot_entry_def
      verlet_frame)

lemma run_frame:
  "autopilot_enabled ((numerical_dynamics E ^^ n) s) = autopilot_enabled s"
  "stabilized_attitude ((numerical_dynamics E ^^ n) s) = stabilized_attitude s"
  "initial_altitude ((numerical_dynamics E ^^ n) s) = initial_altitude s"
  "delta_t ((numerical_dynamics E ^^ n) s) = delta_t s"
  "fuel ((numerical_dynamics E ^^ n) s) = fuel s"
  by (induction n) (simp_all add: numerical_dynamics_frame)

lemma autopilot_entry_frame:
  "system_engaged (autopilot_entry E s) = system_engaged s"
  "vel_engaged (autopilot_entry E s) = vel_engaged s"
  "parachute_status (autopilot_entry E s) = parachute_status s"
  "initial_altitude (autopilot_entry E s) = initial_altitude s"
  "position (autopilot_entry E s) = position (numerical_dynamics E s)"
  "velocity (autopilot_entry E s) = velocity (numerical_dynamics E s)"
  by (simp_all add: autopilot_entry_def verlet_frame integrator_numerical_dynamics)

lemma kinematics_invariant:
  assumes first: "first_iteration s = 1"
    and rest: "velocity s = 0"
    and const: "\<forall>k<Suc n. nd_a E ((numerical_dynamics E ^^ k) s) = a"
  shows "position ((numerical_dynamics E ^^ Suc n) s)
           = position s + (0.5 * (real (Suc n) * delta_t s)\<^sup>2) *\<^sub>R a
       \<and> previous_position ((numerical_dynamics E ^^ Suc n) s)
           = position s + (0.5 * (real n * delta_t s)\<^sup>2) *\<^sub>R a"
  using const
proof (induction n)
  case 0
  have a0: "nd_a E s = a" using 0 by simp
  show ?case
    using first rest a0
    by (simp add: integrator_numerical_dynamics verlet_bootstrap vector3d.expand
        power2_eq_square)
next
  case (Suc n)
  let ?t = "(numerical_dynamics E ^^ Suc n) s"
  have IH: "position ?t = position s + (0.5 * (real (Suc n) * delta_t s)\<^sup>2) *\<^sub>R a"
    "previous_position ?t = position s + (0.5 * (real n * delta_t s)\<^sup>2) *\<^sub>R a"
    using Suc.IH Suc.prems by simp_all
  have acc: "nd_a E ?t = a"
    using Suc.prems by blast
  have steady: "first_iteration ?t \<noteq> 1"
    by (simp add: integrator_numerical_dynamics first_iteration_verlet)
  have dt: "delta_t ?t = delta_t s"
    by (rule run_frame)
  have step: "(numerical_dynamics E ^^ Suc (Suc n)) s = numerical_dynamics E ?t"
    by simp
  have pos: "position (numerical_dynamics E ?t)
     = 2 *\<^sub>R position ?t - previous_position ?t + vmul (vmul a (delta_t s)) (delta_t s)"
    using verlet_steady(1) [OF steady, of a] acc dt
    by (simp add: integrator_numerical_dynamics)
  have prev: "previous_position (numerical_dynamics E ?t) = position ?t"
    using verlet_steady(2) [OF steady, of a] acc
    by (simp add: integrator_numerical_dynamics)
  have "2 *\<^sub>R position ?t - previous_position ?t + vmul (vmul a (delta_t s)) (delta_t s)
        = position s + (0.5 * (real (Suc (Suc n)) * delta_t s)\<^sup>2) *\<^sub>R a"
    unfolding IH by (rule vector3d.expand) (simp add: power2_eq_square algebra_simps)
  then show ?case
    unfolding step using pos prev IH(1) by simp
qed

section \<open>A run from rest under the constant thrust\<close>

lemma nd_a_uniform_field:
  "nd_a uniform_field s = vdiv (vector3d 0 300 0) (100 + fuel s * 100)"
  by (simp add: nd_a_def nd_g_force_def nd_d_force_def nd_mass_def uniform_field_def mars_def
      Let_def)

lemma nd_a_at_rest_run:
  "nd_a uniform_field ((numerical_dynamics uniform_field ^^ k) at_rest) = vector3d 0 2 0"
  by (simp add: nd_a_uniform_field run_frame vdiv_def at_rest_def)

lemma at_rest_run_positions:
  "position (numerical_dynamics uniform_field at_rest) = vector3d 0 (- 3391000.01) 0"
  "position ((numerical_dynamics uniform_field ^^ 2) at_rest) = vector3d 0 (- 3390999.98) 0"
  "previous_position ((numerical_dynamics uniform_field ^^ 2) at_rest)
     = vector3d 0 (- 3391000.01) 0"
proof -
  have start: "first_iteration at_rest = 1" "velocity at_rest = 0"
    by (simp_all add: at_rest_def zero_vector3d_def)
  have const: "\<forall>k<Suc n. nd_a uniform_field ((numerical_dynamics uniform_field ^^ k) at_rest)
                 = vector3d 0 2 0" for n
    by (simp add: nd_a_at_rest_run)
  show "position (numerical_dynamics uniform_field at_rest) = vector3d 0 (- 3391000.01) 0"
    using kinematics_invariant [OF start const, of 0]
    by (simp add: at_rest_def plus_vector3d_def scaleR_vector3d_def power2_eq_square)
  show "position ((numerical_dynamics uniform_field ^^ 2) at_rest)
      = vector3d 0 (- 3390999.98) 0"
    using kinematics_invariant [OF start const, of 1]
    by (simp add: numeral_2_eq_2 at_rest_def plus_vector3d_def scaleR_vector3d_def
        power2_eq_square)
  show "previous_position ((numerical_dynamics uniform_field ^^ 2) at_rest)
      = vector3d 0 (- 3391000.01) 0"
    using kinematics_invariant [OF start const, of 1]
    by (simp add: numeral_2_eq_2 at_rest_def plus_vector3d_def scaleR_vector3d_def
        power2_eq_square)
qed

lemma at_rest_run_altitudes:
  "autopilot_h uniform_field (autopilot_entry uniform_field at_rest) = 5000.01"
  "autopilot_h uniform_field
     (autopilot_entry uniform_field (numerical_dynamics uniform_field at_rest)) = 4999.98"
  "autopilot_alt_engage (autopilot_entry uniform_field at_rest) = 5000"
  "autopilot_alt_engage
     (autopilot_entry uniform_field (numerical_dynamics uniform_field at_rest)) = 5000"
  "autopilot_chute_engage
     (autopilot_entry uniform_field (numerical_dynamics uniform_field at_rest)) = 5000"
proof -
  have two: "numerical_dynamics uniform_field (numerical_dynamics uniform_field at_rest)
      = (numerical_dynamics uniform_field ^^ 2) at_rest"
    by (simp add: numeral_2_eq_2)
  have radius: "MARS_RADIUS uniform_field = 3386000"
    by (simp add: uniform_field_def mars_def)
  have init: "initial_altitude at_rest = 10000"
    by (simp add: at_rest_def)
  show "autopilot_h uniform_field (autopilot_entry uniform_field at_rest) = 5000.01"
    by (simp add: autopilot_h_def autopilot_entry_frame at_rest_run_positions vabs_on_y_axis
        radius)
  show "autopilot_h uniform_field
     (autopilot_entry uniform_field (numerical_dynamics uniform_field at_rest)) = 4999.98"
    by (simp add: autopilot_h_def autopilot_entry_frame two at_rest_run_positions
        vabs_on_y_axis radius)
  show "autopilot_alt_engage (autopilot_entry uniform_field at_rest) = 5000"
    by (simp add: autopilot_alt_engage_def autopilot_entry_frame init)
  show "autopilot_alt_engage
     (autopilot_entry uniform_field (numerical_dynamics uniform_field at_rest)) = 5000"
    by (simp add: autopilot_alt_engage_def autopilot_entry_frame numerical_dynamics_frame init)
  show "autopilot_chute_engage
     (autopilot_entry uniform_field (numerical_dynamics uniform_field at_rest)) = 5000"
    by (simp add: autopilot_chute_engage_def autopilot_alt_engage_def autopilot_entry_frame
        numerical_dynamics_frame init)
qed

lemma at_rest_run_vel_radial:
  "autopilot_vel_radial
     (autopilot_entry uniform_field (numerical_dynamics uniform_field at_rest)) = - 0.4"
proof -
  let ?s1 = "numerical_dynamics uniform_field at_rest"
  have two: "numerical_dynamics uniform_field ?s1 = (numerical_dynamics uniform_field ^^ 2) at_rest"
    by (simp add: numeral_2_eq_2)
  have steady: "first_iteration ?s1 \<noteq> 1"
    by (simp add: integrator_numerical_dynamics first_iteration_verlet)
  have a1: "nd_a uniform_field ?s1 = vector3d 0 2 0"
    using nd_a_at_rest_run [of 1] by simp
  have dt1: "delta_t ?s1 = 0.1"
    by (simp add: numerical_dynamics_frame at_rest_def)
  have "velocity (numerical_dynamics uniform_field ?s1) =
      central_difference (position (numerical_dynamics uniform_field ?s1))
        (previous_position (numerical_dynamics uniform_field ?s1)) (vector3d 0 2 0) 0.1"
    using verlet_steady(3) [OF steady, of "vector3d 0 2 0"] a1 dt1
    by (simp add: integrator_numerical_dynamics)
  then have vel: "velocity (numerical_dynamics uniform_field ?s1) = vector3d 0 0.4 0"
    unfolding two at_rest_run_positions
    by (simp add: central_difference_def vdiv_def vmul_def minus_vector3d_def
        plus_vector3d_def scaleR_vector3d_def)
  show ?thesis
    unfolding autopilot_vel_radial_def autopilot_entry_frame vel
    unfolding two at_rest_run_positions
    by (simp add: vnorm_on_y_axis dot_def)
qed


section \<open>The integrator under constant acceleration\<close>

text \<open>
  C2. The first call of the integrator takes the position at entry as the lagged
  position and sets the position to the position at entry plus velocity times the step
  plus half the acceleration times the square of the step. For a
  lander that starts at rest, if the acceleration is the same vector \<open>a\<close> at each of
  the first \<open>n\<close> calls, then after \<open>m\<close> calls, for every \<open>m\<close> up to \<open>n\<close>, the
  position is the starting position plus half of \<open>a\<close> times the square of the elapsed
  time \<open>m\<close> times the step: after the bootstrap call and after every call of the
  recurrence that follows it.
\<close>

theorem bootstrap_constant_acceleration:
  "(first_iteration s = 1 \<longrightarrow>
      previous_position (numerical_dynamics E s) = position s
      \<and> position (numerical_dynamics E s) =
          position s + vmul (velocity s) (delta_t s)
            + (0.5 * delta_t s * delta_t s) *\<^sub>R nd_a E s)
   \<and> (first_iteration s = 1 \<and> velocity s = 0
        \<and> (\<forall>k<n. nd_a E ((numerical_dynamics E ^^ k) s) = a) \<longrightarrow>
      (\<forall>m\<le>n. position ((numerical_dynamics E ^^ m) s) =
                position s + (0.5 * (real m * delta_t s)\<^sup>2) *\<^sub>R a))"
proof (intro conjI impI allI)
  assume first: "first_iteration s = 1"
  then show "previous_position (numerical_dynamics E s) = position s"
    by (simp add: integrator_numerical_dynamics verlet_bootstrap)
  from first show "position (numerical_dynamics E s) =
      position s + vmul (velocity s) (delta_t s) + (0.5 * delta_t s * delta_t s) *\<^sub>R nd_a E s"
    by (simp add: integrator_numerical_dynamics verlet_bootstrap)
next
  fix m
  assume hyp: "first_iteration s = 1 \<and> velocity s = 0
        \<and> (\<forall>k<n. nd_a E ((numerical_dynamics E ^^ k) s) = a)"
    and le: "m \<le> n"
  show "position ((numerical_dynamics E ^^ m) s) =
          position s + (0.5 * (real m * delta_t s)\<^sup>2) *\<^sub>R a"
  proof (cases m)
    case 0
    then show ?thesis by simp
  next
    case (Suc j)
    have "\<forall>k<Suc j. nd_a E ((numerical_dynamics E ^^ k) s) = a"
      using hyp le Suc by simp
    then show ?thesis
      using kinematics_invariant [of s j E a] hyp Suc by simp
  qed
qed

theorem bootstrap_constant_acceleration_witness:
  "first_iteration at_rest = 1 \<and> velocity at_rest = 0
   \<and> nd_a uniform_field at_rest = vector3d 0 2 0
   \<and> nd_a uniform_field (numerical_dynamics uniform_field at_rest) = vector3d 0 2 0
   \<and> position (numerical_dynamics uniform_field at_rest) = vector3d 0 (- 3391000.01) 0
   \<and> position ((numerical_dynamics uniform_field ^^ 2) at_rest)
       = vector3d 0 (- 3390999.98) 0"
proof -
  have start: "first_iteration at_rest = 1 \<and> velocity at_rest = 0"
    by (simp add: at_rest_def zero_vector3d_def)
  have a0: "nd_a uniform_field at_rest = vector3d 0 2 0"
    using nd_a_at_rest_run [of 0] by simp
  have a1: "nd_a uniform_field (numerical_dynamics uniform_field at_rest) = vector3d 0 2 0"
    using nd_a_at_rest_run [of 1] by simp
  have const: "\<forall>k<2. nd_a uniform_field ((numerical_dynamics uniform_field ^^ k) at_rest)
                 = vector3d 0 2 0"
    by (simp add: nd_a_at_rest_run)
  have all: "\<forall>m\<le>2. position ((numerical_dynamics uniform_field ^^ m) at_rest) =
      position at_rest + (0.5 * (real m * delta_t at_rest)\<^sup>2) *\<^sub>R vector3d 0 2 0"
    using bootstrap_constant_acceleration [of at_rest uniform_field 2 "vector3d 0 2 0"]
      start const by blast
  have p1: "position (numerical_dynamics uniform_field at_rest) = vector3d 0 (- 3391000.01) 0"
    using all [rule_format, of 1]
    by (simp add: at_rest_def plus_vector3d_def scaleR_vector3d_def power2_eq_square)
  have p2: "position ((numerical_dynamics uniform_field ^^ 2) at_rest)
       = vector3d 0 (- 3390999.98) 0"
    using all [rule_format, of 2]
    by (simp add: at_rest_def plus_vector3d_def scaleR_vector3d_def power2_eq_square)
  show ?thesis
    using start a0 a1 p1 p2 by simp
qed

text \<open>
  C5. After any call of the integrator the bootstrap flag is no longer 1, so every later
  call takes the recurrence. A call entered with the flag different from 1 sets the
  position to twice the position at entry minus the lagged position plus the
  acceleration times the square of the step, sets the lagged position to the position
  at entry, and sets the velocity by the central-difference expression on the new
  position, the new lagged position and the acceleration; the bootstrap call sets the
  velocity by that same expression.
\<close>

theorem steady_state_step:
  "first_iteration (numerical_dynamics E s0) \<noteq> 1
   \<and> (first_iteration s \<noteq> 1 \<longrightarrow>
        position (numerical_dynamics E s) =
          2 *\<^sub>R position s - previous_position s
            + vmul (vmul (nd_a E s) (delta_t s)) (delta_t s)
        \<and> previous_position (numerical_dynamics E s) = position s
        \<and> velocity (numerical_dynamics E s) =
            central_difference (position (numerical_dynamics E s))
              (previous_position (numerical_dynamics E s)) (nd_a E s) (delta_t s))
   \<and> (first_iteration s = 1 \<longrightarrow>
        velocity (numerical_dynamics E s) =
            central_difference (position (numerical_dynamics E s))
              (previous_position (numerical_dynamics E s)) (nd_a E s) (delta_t s))"
  by (simp add: integrator_numerical_dynamics first_iteration_verlet verlet_steady
      verlet_bootstrap)

theorem steady_state_step_witness:
  "first_iteration (numerical_dynamics uniform_field at_rest) \<noteq> 1
   \<and> position ((numerical_dynamics uniform_field ^^ 2) at_rest) =
       2 *\<^sub>R position (numerical_dynamics uniform_field at_rest)
         - previous_position (numerical_dynamics uniform_field at_rest)
         + vmul (vmul (vector3d 0 2 0) 0.1) 0.1
   \<and> previous_position ((numerical_dynamics uniform_field ^^ 2) at_rest)
       = position (numerical_dynamics uniform_field at_rest)
   \<and> first_iteration at_rest = 1
   \<and> velocity (numerical_dynamics uniform_field at_rest) =
       central_difference (position (numerical_dynamics uniform_field at_rest))
         (previous_position (numerical_dynamics uniform_field at_rest)) (vector3d 0 2 0) 0.1"
proof -
  let ?s1 = "numerical_dynamics uniform_field at_rest"
  have two: "(numerical_dynamics uniform_field ^^ 2) at_rest = numerical_dynamics uniform_field ?s1"
    by (simp add: numeral_2_eq_2)
  have first: "first_iteration at_rest = 1"
    by (simp add: at_rest_def)
  have a0: "nd_a uniform_field at_rest = vector3d 0 2 0"
    using nd_a_at_rest_run [of 0] by simp
  have a1: "nd_a uniform_field ?s1 = vector3d 0 2 0"
    using nd_a_at_rest_run [of 1] by simp
  have dt0: "delta_t at_rest = 0.1"
    by (simp add: at_rest_def)
  have dt1: "delta_t ?s1 = 0.1"
    by (simp add: numerical_dynamics_frame at_rest_def)
  have steady: "first_iteration ?s1 \<noteq> 1"
    using steady_state_step [of uniform_field at_rest at_rest] by simp
  show ?thesis
    using steady first
      steady_state_step [of uniform_field at_rest ?s1]
      steady_state_step [of uniform_field at_rest at_rest]
    unfolding two a0 a1 dt0 dt1 by simp
qed


section \<open>Engagement and parachute over a run\<close>

lemma engagement_autopilot:
  "system_engaged (autopilot E g m s) =
     (system_engaged s \<or> autopilot_h E s < autopilot_alt_engage s)"
  "vel_engaged (autopilot E g m s) =
     (if \<not> system_engaged s \<and> autopilot_h E s < autopilot_alt_engage s
      then autopilot_vel_radial s else vel_engaged s)"
  by (cases "system_engaged s";
      simp add: autopilot_engaged_eq autopilot_disengaged_eq Let_def)+

lemma parachute_status_autopilot:
  "parachute_status (autopilot E g m s) =
     (if parachute_status s = NOT_DEPLOYED \<and> autopilot_h E s < autopilot_chute_engage s
           \<and> safe_to_deploy_parachute E s
      then DEPLOYED else parachute_status s)"
  by (cases "system_engaged s";
      simp add: autopilot_engaged_eq autopilot_disengaged_eq Let_def)

lemma numerical_dynamics_autopilot_state:
  "system_engaged (numerical_dynamics E s) =
     (if autopilot_enabled s
      then system_engaged (autopilot E (vabs (nd_g_force E s)) (nd_mass E s)
             (autopilot_entry E s))
      else system_engaged s)"
  "vel_engaged (numerical_dynamics E s) =
     (if autopilot_enabled s
      then vel_engaged (autopilot E (vabs (nd_g_force E s)) (nd_mass E s)
             (autopilot_entry E s))
      else vel_engaged s)"
  "parachute_status (numerical_dynamics E s) =
     (if autopilot_enabled s
      then parachute_status (autopilot E (vabs (nd_g_force E s)) (nd_mass E s)
             (autopilot_entry E s))
      else parachute_status s)"
  by (simp_all add: numerical_dynamics_eq Let_def autopilot_entry_frame)

lemma numerical_dynamics_latch:
  "system_engaged s \<Longrightarrow>
   system_engaged (numerical_dynamics E s)
   \<and> vel_engaged (numerical_dynamics E s) = vel_engaged s"
  by (simp add: numerical_dynamics_autopilot_state engagement_autopilot autopilot_entry_frame)

lemma run_latch:
  "system_engaged s \<Longrightarrow>
   system_engaged ((numerical_dynamics E ^^ n) s)
   \<and> vel_engaged ((numerical_dynamics E ^^ n) s) = vel_engaged s"
  by (induction n) (simp_all add: numerical_dynamics_latch)

lemma run_disengaged:
  assumes "\<not> system_engaged s"
    and "\<forall>k<n. \<not> autopilot_h E (autopilot_entry E ((numerical_dynamics E ^^ k) s))
                    < autopilot_alt_engage (autopilot_entry E ((numerical_dynamics E ^^ k) s))"
  shows "\<not> system_engaged ((numerical_dynamics E ^^ n) s)"
  using assms(2)
proof (induction n)
  case 0
  show ?case using assms(1) by simp
next
  case (Suc n)
  let ?t = "(numerical_dynamics E ^^ n) s"
  have prev: "\<not> system_engaged ?t"
    using Suc.IH Suc.prems by simp
  have high: "\<not> autopilot_h E (autopilot_entry E ?t) < autopilot_alt_engage (autopilot_entry E ?t)"
    using Suc.prems by blast
  show ?case
    using prev high
    by (simp add: numerical_dynamics_autopilot_state engagement_autopilot autopilot_entry_frame)
qed

lemma run_not_deployed:
  assumes "parachute_status s = NOT_DEPLOYED"
    and "\<forall>k<n. autopilot_h E (autopilot_entry E ((numerical_dynamics E ^^ k) s))
                  < autopilot_chute_engage (autopilot_entry E ((numerical_dynamics E ^^ k) s))
               \<longrightarrow> \<not> safe_to_deploy_parachute E
                       (autopilot_entry E ((numerical_dynamics E ^^ k) s))"
  shows "parachute_status ((numerical_dynamics E ^^ n) s) = NOT_DEPLOYED"
  using assms(2)
proof (induction n)
  case 0
  show ?case using assms(1) by simp
next
  case (Suc n)
  let ?t = "(numerical_dynamics E ^^ n) s"
  have prev: "parachute_status ?t = NOT_DEPLOYED"
    using Suc.IH Suc.prems by simp
  have gate: "autopilot_h E (autopilot_entry E ?t) < autopilot_chute_engage (autopilot_entry E ?t)
      \<longrightarrow> \<not> safe_to_deploy_parachute E (autopilot_entry E ?t)"
    using Suc.prems by blast
  show ?case
    using prev gate
    by (auto simp add: numerical_dynamics_autopilot_state parachute_status_autopilot
        autopilot_entry_frame)
qed


text \<open>
  C6. One invocation engages exactly when it begins disengaged below the engagement
  altitude, and only then writes the captured velocity, which it sets to the radial
  velocity of that moment. Over a run of calls of \<open>numerical_dynamics\<close> with the
  autopilot enabled that starts disengaged: if the invocation of call \<open>n\<close> is the first
  one below the engagement altitude, the system is disengaged up to and including the
  state before that call, and after every later call it is engaged and the captured
  velocity is still the radial velocity seen by that invocation.
\<close>

theorem engagement_fires_once:
  "system_engaged (autopilot E g_force mass s) =
     (system_engaged s \<or> autopilot_h E s < autopilot_alt_engage s)
   \<and> vel_engaged (autopilot E g_force mass s) =
       (if \<not> system_engaged s \<and> autopilot_h E s < autopilot_alt_engage s
        then autopilot_vel_radial s else vel_engaged s)
   \<and> (autopilot_enabled s \<and> \<not> system_engaged s
       \<and> (\<forall>k<n. \<not> autopilot_h E (autopilot_entry E ((numerical_dynamics E ^^ k) s))
                   < autopilot_alt_engage (autopilot_entry E ((numerical_dynamics E ^^ k) s)))
       \<and> autopilot_h E (autopilot_entry E ((numerical_dynamics E ^^ n) s))
           < autopilot_alt_engage (autopilot_entry E ((numerical_dynamics E ^^ n) s))
      \<longrightarrow> (\<forall>k\<le>n. \<not> system_engaged ((numerical_dynamics E ^^ k) s))
        \<and> (\<forall>j>n. system_engaged ((numerical_dynamics E ^^ j) s)
                \<and> vel_engaged ((numerical_dynamics E ^^ j) s) =
                    autopilot_vel_radial (autopilot_entry E ((numerical_dynamics E ^^ n) s))))"
  (is "?one \<and> ?two \<and> (?enabled \<and> ?off \<and> ?high \<and> ?low \<longrightarrow> ?before \<and> ?after)")
proof -
  let ?t = "(numerical_dynamics E ^^ n) s"
  have one: ?one and two: ?two
    by (rule engagement_autopilot)+
  have run: "?before \<and> ?after" if hyp: "?enabled \<and> ?off \<and> ?high \<and> ?low"
  proof
    show ?before
    proof (intro allI impI)
      fix k
      assume "k \<le> n"
      with hyp have "\<forall>i<k. \<not> autopilot_h E (autopilot_entry E ((numerical_dynamics E ^^ i) s))
                   < autopilot_alt_engage (autopilot_entry E ((numerical_dynamics E ^^ i) s))"
        by simp
      with hyp show "\<not> system_engaged ((numerical_dynamics E ^^ k) s)"
        using run_disengaged [where s = s and n = k and E = E] by blast
    qed
    show ?after
    proof (intro allI impI)
      fix j
      assume later: "n < j"
      have off: "\<not> system_engaged ?t"
        using hyp run_disengaged [where s = s and n = n and E = E] by blast
      have enabled: "autopilot_enabled ?t"
        using hyp by (simp add: run_frame)
      have fired: "system_engaged (numerical_dynamics E ?t)
          \<and> vel_engaged (numerical_dynamics E ?t) = autopilot_vel_radial (autopilot_entry E ?t)"
        using off enabled hyp
        by (simp add: numerical_dynamics_autopilot_state engagement_autopilot
            autopilot_entry_frame)
      have "j = (j - Suc n) + Suc n"
        using later by simp
      then have "(numerical_dynamics E ^^ j) s
          = (numerical_dynamics E ^^ ((j - Suc n) + Suc n)) s"
        by simp
      also have "\<dots> = (numerical_dynamics E ^^ (j - Suc n)) ((numerical_dynamics E ^^ Suc n) s)"
        by (simp only: funpow_add o_apply)
      finally have split: "(numerical_dynamics E ^^ j) s
          = (numerical_dynamics E ^^ (j - Suc n)) (numerical_dynamics E ?t)"
        by simp
      show "system_engaged ((numerical_dynamics E ^^ j) s)
          \<and> vel_engaged ((numerical_dynamics E ^^ j) s)
              = autopilot_vel_radial (autopilot_entry E ?t)"
        unfolding split
        using run_latch [where s = "numerical_dynamics E ?t" and E = E and n = "j - Suc n"]
          fired by simp
    qed
  qed
  from one two run show ?thesis
    by blast
qed


theorem engagement_fires_once_witness:
  "autopilot_enabled at_rest \<and> \<not> system_engaged at_rest
   \<and> autopilot_h uniform_field (autopilot_entry uniform_field at_rest) = 5000.01
   \<and> autopilot_alt_engage (autopilot_entry uniform_field at_rest) = 5000
   \<and> autopilot_h uniform_field
       (autopilot_entry uniform_field (numerical_dynamics uniform_field at_rest)) = 4999.98
   \<and> autopilot_alt_engage
       (autopilot_entry uniform_field (numerical_dynamics uniform_field at_rest)) = 5000
   \<and> \<not> system_engaged (numerical_dynamics uniform_field at_rest)
   \<and> system_engaged ((numerical_dynamics uniform_field ^^ 2) at_rest)
   \<and> vel_engaged ((numerical_dynamics uniform_field ^^ 2) at_rest) = - 0.4
   \<and> system_engaged ((numerical_dynamics uniform_field ^^ 5) at_rest)
   \<and> vel_engaged ((numerical_dynamics uniform_field ^^ 5) at_rest) = - 0.4"
proof -
  let ?E = uniform_field
  have start: "autopilot_enabled at_rest \<and> \<not> system_engaged at_rest"
    by (simp add: at_rest_def)
  have high: "\<forall>k<Suc 0. \<not> autopilot_h ?E (autopilot_entry ?E ((numerical_dynamics ?E ^^ k) at_rest))
      < autopilot_alt_engage (autopilot_entry ?E ((numerical_dynamics ?E ^^ k) at_rest))"
    by (simp add: at_rest_run_altitudes)
  have low: "autopilot_h ?E (autopilot_entry ?E ((numerical_dynamics ?E ^^ Suc 0) at_rest))
      < autopilot_alt_engage (autopilot_entry ?E ((numerical_dynamics ?E ^^ Suc 0) at_rest))"
    by (simp add: at_rest_run_altitudes)
  have run: "(\<forall>k\<le>Suc 0. \<not> system_engaged ((numerical_dynamics ?E ^^ k) at_rest))
      \<and> (\<forall>j>Suc 0. system_engaged ((numerical_dynamics ?E ^^ j) at_rest)
            \<and> vel_engaged ((numerical_dynamics ?E ^^ j) at_rest) =
                autopilot_vel_radial
                  (autopilot_entry ?E ((numerical_dynamics ?E ^^ Suc 0) at_rest)))"
    using engagement_fires_once [where E = ?E and s = at_rest and n = "Suc 0"] start high low
    by blast
  have off1: "\<not> system_engaged (numerical_dynamics ?E at_rest)"
    using run by auto
  have on2: "system_engaged ((numerical_dynamics ?E ^^ 2) at_rest)
      \<and> vel_engaged ((numerical_dynamics ?E ^^ 2) at_rest) = - 0.4"
    using run at_rest_run_vel_radial by auto
  have on5: "system_engaged ((numerical_dynamics ?E ^^ 5) at_rest)
      \<and> vel_engaged ((numerical_dynamics ?E ^^ 5) at_rest) = - 0.4"
    using run at_rest_run_vel_radial by auto
  show ?thesis
    using start off1 on2 on5 by (simp add: at_rest_run_altitudes)
qed


text \<open>
  C7. One invocation changes the parachute status only from \<open>NOT_DEPLOYED\<close> to
  \<open>DEPLOYED\<close>, and does so exactly when the altitude is below \<open>chute_engage\<close> and
  the safety check permits it; \<open>DEPLOYED\<close> and \<open>LOST\<close> are left as they are. The
  threshold is \<open>alt_engage\<close> minus (initial altitude minus 10000) over 1.943, with
  \<open>alt_engage\<close> half the initial altitude. Over a run that starts \<open>NOT_DEPLOYED\<close>,
  if the safety check fails at every invocation below the threshold, the status is
  \<open>NOT_DEPLOYED\<close> after every call.
\<close>

theorem parachute_gate:
  "parachute_status (autopilot E g_force mass s) =
     (if parachute_status s = NOT_DEPLOYED \<and> autopilot_h E s < autopilot_chute_engage s
           \<and> safe_to_deploy_parachute E s
      then DEPLOYED else parachute_status s)
   \<and> autopilot_chute_engage s = autopilot_alt_engage s - (initial_altitude s - 10000) / 1.943
   \<and> autopilot_alt_engage s = 0.5 * initial_altitude s
   \<and> (parachute_status s = NOT_DEPLOYED
       \<and> (\<forall>k<n. autopilot_h E (autopilot_entry E ((numerical_dynamics E ^^ k) s))
                   < autopilot_chute_engage (autopilot_entry E ((numerical_dynamics E ^^ k) s))
                 \<longrightarrow> \<not> safe_to_deploy_parachute E
                         (autopilot_entry E ((numerical_dynamics E ^^ k) s)))
      \<longrightarrow> (\<forall>k\<le>n. parachute_status ((numerical_dynamics E ^^ k) s) = NOT_DEPLOYED))"
  (is "?one \<and> ?chute \<and> ?alt \<and> (?start \<and> ?gate \<longrightarrow> ?stays)")
proof -
  have one: ?one
    by (rule parachute_status_autopilot)
  have chute: ?chute
    by (simp add: autopilot_chute_engage_def)
  have alt: ?alt
    by (simp add: autopilot_alt_engage_def)
  have run: ?stays if hyp: "?start \<and> ?gate"
  proof (intro allI impI)
    fix k
    assume "k \<le> n"
    with hyp have "\<forall>i<k. autopilot_h E (autopilot_entry E ((numerical_dynamics E ^^ i) s))
                   < autopilot_chute_engage (autopilot_entry E ((numerical_dynamics E ^^ i) s))
                 \<longrightarrow> \<not> safe_to_deploy_parachute E
                         (autopilot_entry E ((numerical_dynamics E ^^ i) s))"
      by simp
    with hyp show "parachute_status ((numerical_dynamics E ^^ k) s) = NOT_DEPLOYED"
      using run_not_deployed [where s = s and n = k and E = E] by blast
  qed
  from one chute alt run show ?thesis
    by blast
qed

theorem parachute_gate_witness:
  "parachute_status at_rest = NOT_DEPLOYED
   \<and> autopilot_h uniform_field
       (autopilot_entry uniform_field (numerical_dynamics uniform_field at_rest)) = 4999.98
   \<and> autopilot_chute_engage
       (autopilot_entry uniform_field (numerical_dynamics uniform_field at_rest)) = 5000
   \<and> \<not> safe_to_deploy_parachute uniform_field
         (autopilot_entry uniform_field (numerical_dynamics uniform_field at_rest))
   \<and> parachute_status ((numerical_dynamics uniform_field ^^ 2) at_rest) = NOT_DEPLOYED
   \<and> parachute_status hovering = NOT_DEPLOYED
   \<and> autopilot_h mars hovering < autopilot_chute_engage hovering
   \<and> safe_to_deploy_parachute mars hovering
   \<and> parachute_status (autopilot mars 600 160 hovering) = DEPLOYED
   \<and> parachute_status (autopilot mars 600 160 (hovering\<lparr>parachute_status := LOST\<rparr>)) = LOST"
proof -
  let ?E = uniform_field
  have never: "safe_to_deploy_parachute ?E t = False" for t
    by (simp add: uniform_field_def)
  have start: "parachute_status at_rest = NOT_DEPLOYED"
    by (simp add: at_rest_def)
  have gate: "\<forall>k<2. autopilot_h ?E (autopilot_entry ?E ((numerical_dynamics ?E ^^ k) at_rest))
        < autopilot_chute_engage (autopilot_entry ?E ((numerical_dynamics ?E ^^ k) at_rest))
      \<longrightarrow> \<not> safe_to_deploy_parachute ?E
              (autopilot_entry ?E ((numerical_dynamics ?E ^^ k) at_rest))"
    by (simp add: never)
  have stays: "\<forall>k\<le>2. parachute_status ((numerical_dynamics ?E ^^ k) at_rest) = NOT_DEPLOYED"
    using parachute_gate [where E = ?E and s = at_rest and n = 2] start gate by blast
  have run2: "parachute_status ((numerical_dynamics ?E ^^ 2) at_rest) = NOT_DEPLOYED"
    using stays by simp
  have hov: "parachute_status hovering = NOT_DEPLOYED"
    "autopilot_h mars hovering < autopilot_chute_engage hovering"
    "safe_to_deploy_parachute mars hovering"
    by (simp_all add: hovering_locals) (simp_all add: hovering_def mars_def vabs2_def)
  have deploy: "parachute_status (autopilot mars 600 160 hovering) = DEPLOYED"
    using parachute_gate [where E = mars and s = hovering and g_force = 600 and mass = 160]
      hov by simp
  have lost: "parachute_status (autopilot mars 600 160 (hovering\<lparr>parachute_status := LOST\<rparr>))
      = LOST"
    using parachute_gate [where E = mars and s = "hovering\<lparr>parachute_status := LOST\<rparr>"
        and g_force = 600 and mass = 160]
    by simp
  show ?thesis
    using start run2 hov deploy lost by (simp add: at_rest_run_altitudes never)
qed

end
